theory Spec2Isabelle
  imports Complex_Main
begin

section \<open>Numbers and missing values\<close>

text \<open>
  The program is TypeScript; every quantity is a JavaScript \<open>number\<close>. The embedding reads a
  number as a real: finite values, exact arithmetic. \<open>NaN\<close> and the infinities are outside
  the model. The definitions named after the source evaluate its formulas exactly; where
  the rounding of IEEE doubles decides a property (the cooling step), the same steps are
  given a second time in binary64 arithmetic, operation by operation, under the names
  \<open>d_...\<close>.

  A nullable column or an optional key is an \<open>option\<close>. The code reads such a value with
  \<open>v || 0\<close>, which yields \<open>0\<close> for \<open>undefined\<close>, \<open>null\<close> and \<open>0\<close>, and \<open>v\<close> otherwise.
\<close>

definition or_zero :: "real option \<Rightarrow> real" where
  "or_zero v = (case v of None \<Rightarrow> 0 | Some x \<Rightarrow> x)"

text \<open>\<open>Math.round\<close>: the nearest integer, a tie going up.\<close>

definition Math_round :: "real \<Rightarrow> real" where
  "Math_round x = of_int \<lfloor>x + 1 / 2\<rfloor>"

section \<open>Data model (shared/schema.ts)\<close>

record Farm =
  length_f :: real
  width :: real
  height :: real

text \<open>The \<open>specification\<close> JSON column of an equipment row; every key is optional.\<close>

record Specification =
  diameter :: "real option"
  power_f :: "real option"
  surface :: "real option"

record Equipment =
  type_f :: string
  specification_f :: "Specification option"
  isActive :: "bool option"
  currentSetting :: "real option"

record Flock =
  chickCount :: int
  initialChickCount :: int
  currentAge :: int
  averageWeight :: real

text \<open>\<open>x.specification?.key\<close>: undefined when the specification is null or lacks the key.\<close>

definition spec_field :: "(Specification \<Rightarrow> real option) \<Rightarrow> Equipment \<Rightarrow> real option" where
  "spec_field key eq = (case specification_f eq of None \<Rightarrow> None | Some s \<Rightarrow> key s)"

text \<open>\<open>eq.isActive\<close> in a condition: true only for the boolean \<open>true\<close>.\<close>

definition truthy :: "bool option \<Rightarrow> bool" where
  "truthy b = (case b of None \<Rightarrow> False | Some v \<Rightarrow> v)"

section \<open>Constants (constants.ts)\<close>

record Targets =
  tempMin :: real
  tempMax :: real
  humidity :: real
  ventilation :: real

definition AGE_TARGETS :: "int \<Rightarrow> Targets option" where
  "AGE_TARGETS k =
     (if k = 0 then Some \<lparr>tempMin = 32, tempMax = 35, humidity = 60, ventilation = 20\<rparr>
      else if k = 7 then Some \<lparr>tempMin = 29, tempMax = 32, humidity = 60, ventilation = 25\<rparr>
      else if k = 14 then Some \<lparr>tempMin = 27, tempMax = 30, humidity = 65, ventilation = 30\<rparr>
      else if k = 21 then Some \<lparr>tempMin = 24, tempMax = 27, humidity = 65, ventilation = 35\<rparr>
      else if k = 28 then Some \<lparr>tempMin = 21, tempMax = 24, humidity = 70, ventilation = 40\<rparr>
      else if k = 35 then Some \<lparr>tempMin = 18, tempMax = 21, humidity = 70, ventilation = 45\<rparr>
      else None)"

text \<open>\<open>EQUIPMENT_SPECS\<close>.\<close>

definition fan_airflowFactor :: real where "fan_airflowFactor = 85 / 100"
definition heater_efficiencyFactor :: real where "heater_efficiencyFactor = 8 / 10"
definition heater_temperatureRise :: real where "heater_temperatureRise = 5 / 10"
definition inlet_velocityFactor :: real where "inlet_velocityFactor = 25 / 10"
definition inlet_coolingFactor :: real where "inlet_coolingFactor = 1 / 10"

section \<open>Advisories\<close>

datatype AdvisoryType = warning | info | success

text \<open>
  The message of an advisory is a template literal. The model keeps which template it is and
  the values interpolated into it (\<open>toFixed(1)\<close> is applied to them when the text is
  rendered), not the rendered text.
\<close>

datatype Message =
    Msg_temperature_low real real real real
  | Msg_temperature_high real real real real
  | Msg_temperature_good real real
  | Msg_humidity_low real
  | Msg_humidity_high real
  | Msg_optimize_energy
  | Msg_optimize_fans
  | Msg_activate_heating

record Advisory =
  adv_type :: AdvisoryType
  title :: string
  message :: Message
  action :: string

section \<open>generateRecommendations (calculations.ts)\<close>

text \<open>\<open>AGE_TARGETS[ageKey] || AGE_TARGETS[35]\<close> with \<open>ageKey = Math.floor(age / 7) * 7\<close>.\<close>

definition targets_for :: "real \<Rightarrow> Targets" where
  "targets_for age =
     (let ageKey = \<lfloor>age / 7\<rfloor> * 7
      in case AGE_TARGETS ageKey of Some t \<Rightarrow> t | None \<Rightarrow> the (AGE_TARGETS 35))"

definition activeFans :: "Equipment list \<Rightarrow> Equipment list" where
  "activeFans equipment = filter (\<lambda>eq. type_f eq = ''fan'' \<and> truthy (isActive eq)) equipment"

definition activeHeaters :: "Equipment list \<Rightarrow> Equipment list" where
  "activeHeaters equipment =
     filter (\<lambda>eq. type_f eq = ''heater'' \<and> truthy (isActive eq)) equipment"

text \<open>The rules, in the order of the source; each one appends at most one advisory.\<close>

definition temperature_rule :: "Targets \<Rightarrow> real \<Rightarrow> real \<Rightarrow> Advisory list" where
  "temperature_rule targets insideTemp age =
     (if insideTemp < tempMin targets then
        [\<lparr>adv_type = warning, title = ''Temperature Below Target'',
          message = Msg_temperature_low insideTemp (tempMin targets - insideTemp)
                      (tempMin targets) (tempMax targets),
          action = ''temperature_low''\<rparr>]
      else if insideTemp > tempMax targets then
        [\<lparr>adv_type = warning, title = ''Temperature Above Target'',
          message = Msg_temperature_high insideTemp (insideTemp - tempMax targets)
                      (tempMin targets) (tempMax targets),
          action = ''temperature_high''\<rparr>]
      else
        [\<lparr>adv_type = success, title = ''Temperature Optimal'',
          message = Msg_temperature_good insideTemp age,
          action = ''temperature_good''\<rparr>])"

definition humidity_rule :: "Targets \<Rightarrow> real \<Rightarrow> Advisory list" where
  "humidity_rule targets insideHumidity =
     (if insideHumidity < humidity targets - 10 then
        [\<lparr>adv_type = info, title = ''Humidity Low'',
          message = Msg_humidity_low insideHumidity, action = ''humidity_low''\<rparr>]
      else if insideHumidity > humidity targets + 15 then
        [\<lparr>adv_type = info, title = ''Humidity High'',
          message = Msg_humidity_high insideHumidity, action = ''humidity_high''\<rparr>]
      else [])"

definition energy_rule :: "Targets \<Rightarrow> real \<Rightarrow> real \<Rightarrow> Advisory list" where
  "energy_rule targets insideTemp totalHeating =
     (if totalHeating > 10 \<and> insideTemp > tempMax targets then
        [\<lparr>adv_type = info, title = ''Energy Optimization'',
          message = Msg_optimize_energy, action = ''optimize_energy''\<rparr>]
      else [])"

definition fans_rule :: "Targets \<Rightarrow> real \<Rightarrow> Equipment list \<Rightarrow> Advisory list" where
  "fans_rule targets insideTemp equipment =
     (if length (activeFans equipment) > 1 \<and> insideTemp \<ge> tempMin targets
          \<and> insideTemp \<le> tempMax targets then
        [\<lparr>adv_type = info, title = ''Equipment Optimization'',
          message = Msg_optimize_fans, action = ''optimize_fans''\<rparr>]
      else [])"

definition heating_rule :: "Targets \<Rightarrow> real \<Rightarrow> Equipment list \<Rightarrow> Advisory list" where
  "heating_rule targets insideTemp equipment =
     (if length (activeHeaters equipment) = 0 \<and> insideTemp < tempMin targets - 2 then
        [\<lparr>adv_type = warning, title = ''Heating Required'',
          message = Msg_activate_heating, action = ''activate_heating''\<rparr>]
      else [])"

definition generateRecommendations ::
    "real \<Rightarrow> real \<Rightarrow> real \<Rightarrow> real \<Rightarrow> real \<Rightarrow> Equipment list \<Rightarrow> Advisory list" where
  "generateRecommendations insideTemp insideHumidity age totalHeating totalCooling equipment =
     (let targets = targets_for age
      in temperature_rule targets insideTemp age
         @ humidity_rule targets insideHumidity
         @ energy_rule targets insideTemp totalHeating
         @ fans_rule targets insideTemp equipment
         @ heating_rule targets insideTemp equipment)"

section \<open>calculateInsideTemperature (calculations.ts)\<close>

record EnvironmentalCalculation =
  insideTemp :: real
  insideHumidity :: real
  totalHeating :: real
  totalCooling :: real
  ventilationEffect :: real
  recommendations :: "Advisory list"
  volume :: real
  surfaceArea :: real

definition farm_volume :: "Farm \<Rightarrow> real" where
  "farm_volume farm = length_f farm * width farm * height farm"

definition farm_surfaceArea :: "Farm \<Rightarrow> real" where
  "farm_surfaceArea farm =
     2 * (length_f farm * width farm + length_f farm * height farm + width farm * height farm)"

text \<open>\<open>activeHeaters.reduce(..., 0)\<close>: the local \<open>totalHeating\<close>.\<close>

definition sum_heating :: "Equipment list \<Rightarrow> real" where
  "sum_heating equipment =
     foldl (\<lambda>sum heater.
              let power = or_zero (spec_field power_f heater);
                  setting = or_zero (currentSetting heater)
              in sum + (power * setting / 100))
       0 (activeHeaters equipment)"

definition heating_effect :: "real \<Rightarrow> real \<Rightarrow> real" where
  "heating_effect heating vol =
     heating * heater_efficiencyFactor * heater_temperatureRise / (vol / 100)"

text \<open>\<open>activeFans.reduce(..., 0)\<close>: the local \<open>totalCooling\<close>.\<close>

definition sum_cooling :: "Equipment list \<Rightarrow> real" where
  "sum_cooling equipment =
     foldl (\<lambda>sum fan.
              let diameter = or_zero (spec_field diameter fan);
                  setting = or_zero (currentSetting fan);
                  airflow = diameter * fan_airflowFactor * setting / 100
              in sum + airflow)
       0 (activeFans equipment)"

definition cooling_effect :: "real \<Rightarrow> real \<Rightarrow> real \<Rightarrow> real \<Rightarrow> real" where
  "cooling_effect cooling inside outsideTemp vol =
     min (cooling * (1 / 1000) * max (inside - outsideTemp) 0 / vol)
         (inside - outsideTemp)"

definition inlets :: "Equipment list \<Rightarrow> Equipment list" where
  "inlets equipment = filter (\<lambda>eq. type_f eq = ''inlet'') equipment"

text \<open>
  \<open>inlets.reduce(..., 0)\<close>: the local \<open>ventilationEffect\<close>, before it is rounded for the
  result. The source binds \<open>surface\<close> and does not use it.
\<close>

definition sum_ventilation :: "Equipment list \<Rightarrow> real \<Rightarrow> real" where
  "sum_ventilation equipment windSpeed =
     foldl (\<lambda>sum inlet.
              let surface = or_zero (spec_field surface inlet);
                  opening = or_zero (currentSetting inlet);
                  velocity = opening * inlet_velocityFactor / 100;
                  coolingFromVentilation = velocity * inlet_coolingFactor * windSpeed * (1 / 10)
              in sum + coolingFromVentilation)
       0 (inlets equipment)"

text \<open>The running \<open>insideTemp\<close> after each of the three updates.\<close>

definition temp_after_heating :: "Farm \<Rightarrow> Equipment list \<Rightarrow> real \<Rightarrow> real" where
  "temp_after_heating farm equipment outsideTemp =
     outsideTemp + heating_effect (sum_heating equipment) (farm_volume farm)"

definition temp_after_cooling :: "Farm \<Rightarrow> Equipment list \<Rightarrow> real \<Rightarrow> real" where
  "temp_after_cooling farm equipment outsideTemp =
     (let insideTemp = temp_after_heating farm equipment outsideTemp
      in insideTemp
         - cooling_effect (sum_cooling equipment) insideTemp outsideTemp (farm_volume farm))"

definition temp_after_ventilation :: "Farm \<Rightarrow> Equipment list \<Rightarrow> real \<Rightarrow> real \<Rightarrow> real" where
  "temp_after_ventilation farm equipment outsideTemp windSpeed =
     temp_after_cooling farm equipment outsideTemp - sum_ventilation equipment windSpeed"

text \<open>The local \<open>insideHumidity\<close>, before it is rounded for the result.\<close>

definition humidity_step :: "real \<Rightarrow> real \<Rightarrow> real \<Rightarrow> real" where
  "humidity_step inside outsideTemp outsideHumidity =
     (if inside > outsideTemp then
        min 100 (max 30
          (outsideHumidity * ((outsideTemp + 27315 / 100) / (inside + 27315 / 100))))
      else outsideHumidity)"

text \<open>\<open>flockAge || 18\<close>: 18 when the argument is absent, and when it is 0.\<close>

definition age_or_default :: "real option \<Rightarrow> real" where
  "age_or_default flockAge =
     (case flockAge of None \<Rightarrow> 18 | Some a \<Rightarrow> if a = 0 then 18 else a)"

definition calculateInsideTemperature ::
    "Farm \<Rightarrow> Equipment list \<Rightarrow> real \<Rightarrow> real \<Rightarrow> real \<Rightarrow> real option
       \<Rightarrow> EnvironmentalCalculation" where
  "calculateInsideTemperature farm equipment outsideTemp outsideHumidity windSpeed flockAge =
     (let volume = farm_volume farm;
          surfaceArea = farm_surfaceArea farm;
          totalHeating = sum_heating equipment;
          totalCooling = sum_cooling equipment;
          ventilationEffect = sum_ventilation equipment windSpeed;
          insideTemp = temp_after_ventilation farm equipment outsideTemp windSpeed;
          insideHumidity = humidity_step insideTemp outsideTemp outsideHumidity;
          recommendations =
            generateRecommendations insideTemp insideHumidity (age_or_default flockAge)
              totalHeating totalCooling equipment
      in \<lparr>insideTemp = Math_round (insideTemp * 10) / 10,
          insideHumidity = Math_round (insideHumidity * 10) / 10,
          totalHeating = totalHeating,
          totalCooling = totalCooling,
          ventilationEffect = Math_round (ventilationEffect * 10) / 10,
          recommendations = recommendations,
          volume = volume,
          surfaceArea = Math_round (surfaceArea * 10) / 10\<rparr>)"

section \<open>The aggregation inlined in the request handler (routes.ts)\<close>

text \<open>
  \<open>POST /api/calculate-environment\<close> repeats the aggregation with formulas of its own:
  the airflow of a fan is \<open>Math.PI * Math.pow(diameter / 200, 2) * setting * 50\<close>, and an
  inlet contributes \<open>surface * opening / 100 * windSpeed * 0.1\<close>.
\<close>

definition route_totalCooling :: "Equipment list \<Rightarrow> real" where
  "route_totalCooling equipment =
     foldl (\<lambda>sum fan.
              let diameter = or_zero (spec_field diameter fan);
                  setting = or_zero (currentSetting fan);
                  airflow = pi * (diameter / 200) ^ 2 * setting * 50
              in sum + airflow)
       0 (activeFans equipment)"

definition route_ventilationEffect :: "Equipment list \<Rightarrow> real \<Rightarrow> real" where
  "route_ventilationEffect equipment windSpeed =
     foldl (\<lambda>sum inlet.
              let surface = or_zero (spec_field surface inlet);
                  opening = or_zero (currentSetting inlet)
              in sum + (surface * opening / 100 * windSpeed * (1 / 10)))
       0 (inlets equipment)"

section \<open>calculateGrowthProjections (calculations.ts)\<close>

record GrowthProjection =
  projectedWeight7d :: real
  projectedWeight14d :: real
  growthRateVsStandard :: real
  fcr :: real
  environmentalFactor :: real

text \<open>\<open>40 + (age * 20) + Math.pow(age, 1.5) * 2\<close>.\<close>

definition getStandardWeight :: "real \<Rightarrow> real" where
  "getStandardWeight age = 40 + (age * 20) + (age powr (3 / 2)) * 2"

text \<open>\<open>recommendations.some(r => r.action === 'temperature_good')\<close>.\<close>

definition hasGoodTemp :: "EnvironmentalCalculation \<Rightarrow> bool" where
  "hasGoodTemp currentEnvironment =
     list_ex (\<lambda>r. action r = ''temperature_good'') (recommendations currentEnvironment)"

definition baseGrowthRate :: "Flock \<Rightarrow> real" where
  "baseGrowthRate flock = max 10 (50 - of_int (currentAge flock) * (8 / 10))"

definition calculateGrowthProjections ::
    "Flock \<Rightarrow> EnvironmentalCalculation \<Rightarrow> GrowthProjection" where
  "calculateGrowthProjections flock currentEnvironment =
     (let age = of_int (currentAge flock);
          environmentalFactor =
            (if \<not> hasGoodTemp currentEnvironment then 1 * (85 / 100) else 1);
          projectedWeight7d =
            averageWeight flock + (baseGrowthRate flock * environmentalFactor * 7);
          projectedWeight14d =
            averageWeight flock + (baseGrowthRate flock * environmentalFactor * 14);
          standardWeight = getStandardWeight age;
          growthRateVsStandard = ((averageWeight flock / standardWeight) - 1) * 100;
          fcr = 12 / 10 + (age * (1 / 100))
                + (if hasGoodTemp currentEnvironment then 0 else 2 / 10)
      in \<lparr>projectedWeight7d = Math_round projectedWeight7d,
          projectedWeight14d = Math_round projectedWeight14d,
          growthRateVsStandard = Math_round (growthRateVsStandard * 10) / 10,
          fcr = Math_round (fcr * 100) / 100,
          environmentalFactor = Math_round (environmentalFactor * 100) / 100\<rparr>)"

section \<open>Binary64 arithmetic\<close>

text \<open>
  A JavaScript number is an IEEE 754 binary64 value, and every arithmetic operation returns
  the double nearest to the exact result, a tie going to the even significand. For
  \<open>2\<^sup>e \<le> |x| < 2\<^sup>e\<^sup>+\<^sup>1\<close> the doubles around \<open>x\<close> are the multiples of \<open>2\<^sup>e\<^sup>-\<^sup>5\<^sup>2\<close> (of
  \<open>2\<^sup>-\<^sup>1\<^sup>0\<^sup>7\<^sup>4\<close> in the subnormal range). Overflow to an infinity is not modelled: the function
  below is the rounding of the code for \<open>|x| < 2\<^sup>1\<^sup>0\<^sup>2\<^sup>4\<close>.
\<close>

text \<open>The number of binary digits of a natural number.\<close>

function bit_length :: "nat \<Rightarrow> nat" where
  "bit_length n = (if n = 0 then 0 else Suc (bit_length (n div 2)))"
  by pat_completeness auto
termination
  by (relation "measure id") auto

declare bit_length.simps [simp del]

text \<open>The binary exponent of a positive real: \<open>e\<close> with \<open>2\<^sup>e \<le> x < 2\<^sup>e\<^sup>+\<^sup>1\<close>.\<close>

definition exponent2 :: "real \<Rightarrow> int" where
  "exponent2 x =
     (if 1 \<le> x then int (bit_length (nat \<lfloor>x\<rfloor>)) - 1
      else - int (bit_length (nat (\<lceil>1 / x\<rceil> - 1))))"

text \<open>The nearest integer, a tie going to the even one.\<close>

definition round_even :: "real \<Rightarrow> int" where
  "round_even x =
     (let f = \<lfloor>x\<rfloor>; r = x - of_int f
      in if r < 1 / 2 then f else if 1 / 2 < r then f + 1 else if even f then f else f + 1)"

definition binary64 :: "real \<Rightarrow> real" where
  "binary64 x =
     (if x = 0 then 0
      else let q = max (exponent2 \<bar>x\<bar> - 52) (- 1074)
           in of_int (round_even (x / 2 powi q)) * 2 powi q)"

text \<open>The four operators on doubles.\<close>

definition d_add :: "real \<Rightarrow> real \<Rightarrow> real" where
  "d_add x y = binary64 (x + y)"

definition d_sub :: "real \<Rightarrow> real \<Rightarrow> real" where
  "d_sub x y = binary64 (x - y)"

definition d_mul :: "real \<Rightarrow> real \<Rightarrow> real" where
  "d_mul x y = binary64 (x * y)"

definition d_div :: "real \<Rightarrow> real \<Rightarrow> real" where
  "d_div x y = binary64 (x / y)"

section \<open>The heating and cooling steps in binary64 (calculations.ts, lines 28 to 60)\<close>

text \<open>
  The arguments are doubles; a decimal literal of the source, and a decimal input such as
  15.9, stands for the double nearest to it. Each definition repeats the one of the same
  name above with every operator replaced by its binary64 counterpart, in the order in
  which JavaScript evaluates the expression.
\<close>

definition d_farm_volume :: "Farm \<Rightarrow> real" where
  "d_farm_volume farm = d_mul (d_mul (length_f farm) (width farm)) (height farm)"

definition d_sum_heating :: "Equipment list \<Rightarrow> real" where
  "d_sum_heating equipment =
     foldl (\<lambda>sum heater.
              let power = or_zero (spec_field power_f heater);
                  setting = or_zero (currentSetting heater)
              in d_add sum (d_div (d_mul power setting) 100))
       0 (activeHeaters equipment)"

definition d_heating_effect :: "real \<Rightarrow> real \<Rightarrow> real" where
  "d_heating_effect heating vol =
     d_div (d_mul (d_mul heating (binary64 heater_efficiencyFactor))
              (binary64 heater_temperatureRise))
       (d_div vol 100)"

definition d_sum_cooling :: "Equipment list \<Rightarrow> real" where
  "d_sum_cooling equipment =
     foldl (\<lambda>sum fan.
              let diameter = or_zero (spec_field diameter fan);
                  setting = or_zero (currentSetting fan);
                  airflow =
                    d_div (d_mul (d_mul diameter (binary64 fan_airflowFactor)) setting) 100
              in d_add sum airflow)
       0 (activeFans equipment)"

definition d_cooling_effect :: "real \<Rightarrow> real \<Rightarrow> real \<Rightarrow> real \<Rightarrow> real" where
  "d_cooling_effect cooling inside outsideTemp vol =
     min (d_div (d_mul (d_mul cooling (binary64 (1 / 1000)))
                   (max (d_sub inside outsideTemp) 0))
            vol)
         (d_sub inside outsideTemp)"

definition d_temp_after_heating :: "Farm \<Rightarrow> Equipment list \<Rightarrow> real \<Rightarrow> real" where
  "d_temp_after_heating farm equipment outsideTemp =
     d_add outsideTemp (d_heating_effect (d_sum_heating equipment) (d_farm_volume farm))"

definition d_temp_after_cooling :: "Farm \<Rightarrow> Equipment list \<Rightarrow> real \<Rightarrow> real" where
  "d_temp_after_cooling farm equipment outsideTemp =
     (let insideTemp = d_temp_after_heating farm equipment outsideTemp
      in d_sub insideTemp
           (d_cooling_effect (d_sum_cooling equipment) insideTemp outsideTemp
              (d_farm_volume farm)))"

section \<open>The ventilation effect in the words of the specification\<close>

text \<open>
  This definition follows the specification, not the source: the sum over all inlets of
  \<open>(surface * velocityFactor / 100 * setting) * coolingFactor * windSpeed * 0.1\<close>. It is
  compared with \<open>sum_ventilation\<close>, which is what the source computes.
\<close>

definition spec_ventilationEffect :: "Equipment list \<Rightarrow> real \<Rightarrow> real" where
  "spec_ventilationEffect equipment windSpeed =
     (\<Sum>inlet\<leftarrow>inlets equipment.
        (or_zero (spec_field surface inlet) * inlet_velocityFactor / 100
           * or_zero (currentSetting inlet))
          * inlet_coolingFactor * windSpeed * (1 / 10))"

section \<open>Reading an advisory list\<close>

definition is_temperature_action :: "string \<Rightarrow> bool" where
  "is_temperature_action a \<longleftrightarrow>
     a = ''temperature_low'' \<or> a = ''temperature_high'' \<or> a = ''temperature_good''"

text \<open>An action code fires when some advisory of the list carries it.\<close>

definition fires :: "string \<Rightarrow> Advisory list \<Rightarrow> bool" where
  "fires a recs \<longleftrightarrow> a \<in> action ` set recs"

section \<open>Example inputs\<close>

text \<open>The enclosure of the spec's scenarios, and one piece of equipment of each kind.\<close>

definition example_farm :: Farm where
  "example_farm = \<lparr>length_f = 24, width = 12, height = 35 / 10\<rparr>"

definition fan_of :: "real \<Rightarrow> real \<Rightarrow> Equipment" where
  "fan_of d s =
     \<lparr>type_f = ''fan'',
      specification_f = Some \<lparr>diameter = Some d, power_f = None, surface = None\<rparr>,
      isActive = Some True, currentSetting = Some s\<rparr>"

definition heater_of :: "real \<Rightarrow> real \<Rightarrow> Equipment" where
  "heater_of p s =
     \<lparr>type_f = ''heater'',
      specification_f = Some \<lparr>diameter = None, power_f = Some p, surface = None\<rparr>,
      isActive = Some True, currentSetting = Some s\<rparr>"

definition inlet_of :: "real \<Rightarrow> real \<Rightarrow> Equipment" where
  "inlet_of a s =
     \<lparr>type_f = ''inlet'',
      specification_f = Some \<lparr>diameter = None, power_f = None, surface = Some a\<rparr>,
      isActive = Some False, currentSetting = Some s\<rparr>"

definition example_flock :: Flock where
  "example_flock =
     \<lparr>chickCount = 1000, initialChickCount = 1000, currentAge = 42, averageWeight = 485\<rparr>"

text \<open>
  A small enclosure with one heater at 10 percent and twenty fans of 200 cm at full speed:
  the fans can remove more heat than the heater adds.
\<close>

definition small_farm :: Farm where
  "small_farm = \<lparr>length_f = 3, width = 1, height = 1\<rparr>"

definition heater_and_fans :: "Equipment list" where
  "heater_and_fans = heater_of 15 10 # replicate 20 (fan_of 200 100)"

section \<open>Auxiliary lemmas\<close>

lemmas example_defs = example_farm_def fan_of_def heater_of_def inlet_of_def

lemmas aggregate_defs =
  sum_heating_def sum_cooling_def sum_ventilation_def activeHeaters_def activeFans_def
  inlets_def spec_field_def or_zero_def truthy_def
  fan_airflowFactor_def heater_efficiencyFactor_def heater_temperatureRise_def
  inlet_velocityFactor_def inlet_coolingFactor_def

lemmas temp_defs =
  temp_after_ventilation_def temp_after_cooling_def temp_after_heating_def
  heating_effect_def cooling_effect_def farm_volume_def

subsection \<open>The reductions as sums\<close>

lemma foldl_add_sum_list:
  fixes a :: real
  shows "foldl (\<lambda>s x. s + f x) a xs = a + sum_list (map f xs)"
  by (induction xs arbitrary: a) simp_all

lemma sum_heating_sum_list:
  "sum_heating equipment =
     (\<Sum>h\<leftarrow>activeHeaters equipment.
        or_zero (spec_field power_f h) * or_zero (currentSetting h) / 100)"
  by (simp add: sum_heating_def Let_def foldl_add_sum_list)

lemma sum_cooling_sum_list:
  "sum_cooling equipment =
     (\<Sum>f\<leftarrow>activeFans equipment.
        or_zero (spec_field diameter f) * fan_airflowFactor * or_zero (currentSetting f) / 100)"
  by (simp add: sum_cooling_def Let_def foldl_add_sum_list)

lemma sum_ventilation_sum_list:
  "sum_ventilation equipment w =
     (\<Sum>i\<leftarrow>inlets equipment.
        or_zero (currentSetting i) * inlet_velocityFactor / 100 * inlet_coolingFactor * w
          * (1 / 10))"
  by (simp add: sum_ventilation_def Let_def foldl_add_sum_list)

subsection \<open>Rounding\<close>

lemma Math_round_le: "Math_round x \<le> x + 1 / 2"
  by (simp add: Math_round_def)

lemma Math_round_gt: "x - 1 / 2 < Math_round x"
  unfolding Math_round_def by linarith

lemma Math_round_mono: "x \<le> y \<Longrightarrow> Math_round x \<le> Math_round y"
  unfolding Math_round_def by (simp add: floor_mono)

lemma Math_round_of_int: "Math_round (of_int n) = of_int n"
proof -
  have "\<lfloor>real_of_int n + 1 / 2\<rfloor> = n"
    by (rule floor_unique) simp_all
  then show ?thesis
    by (simp add: Math_round_def)
qed

subsection \<open>The cooling step\<close>

lemma cooling_effect_le: "cooling_effect c t outsideTemp v \<le> t - outsideTemp"
  by (simp add: cooling_effect_def)

lemma temp_after_cooling_ge: "outsideTemp \<le> temp_after_cooling farm equipment outsideTemp"
  using cooling_effect_le [of "sum_cooling equipment"
      "temp_after_heating farm equipment outsideTemp" outsideTemp "farm_volume farm"]
  by (simp add: temp_after_cooling_def Let_def)

subsection \<open>What each rule contributes\<close>

lemma temperature_rule_actions:
  "length (temperature_rule t x a) = 1
   \<and> length (filter (\<lambda>r. is_temperature_action (action r)) (temperature_rule t x a)) = 1"
  by (simp add: temperature_rule_def is_temperature_action_def)

lemma humidity_rule_actions:
  "length (humidity_rule t h) \<le> 1
   \<and> filter (\<lambda>r. is_temperature_action (action r)) (humidity_rule t h) = []"
  by (simp add: humidity_rule_def is_temperature_action_def)

lemma energy_rule_actions:
  "filter (\<lambda>r. is_temperature_action (action r)) (energy_rule t x th) = []"
  by (simp add: energy_rule_def is_temperature_action_def)

lemma fans_rule_actions:
  "filter (\<lambda>r. is_temperature_action (action r)) (fans_rule t x eqs) = []"
  by (simp add: fans_rule_def is_temperature_action_def)

lemma heating_rule_actions:
  "filter (\<lambda>r. is_temperature_action (action r)) (heating_rule t x eqs) = []"
  by (simp add: heating_rule_def is_temperature_action_def)

lemma temperature_advisory_count:
  "length (filter (\<lambda>r. is_temperature_action (action r))
     (generateRecommendations x h age th tc eqs)) = 1"
  by (simp add: generateRecommendations_def Let_def temperature_rule_actions
      humidity_rule_actions energy_rule_actions fans_rule_actions heating_rule_actions)

lemma fires_append: "fires a (xs @ ys) \<longleftrightarrow> fires a xs \<or> fires a ys"
  by (auto simp add: fires_def)

lemma fires_temperature_rule:
  "fires a (temperature_rule t x age) \<longleftrightarrow>
     (a = ''temperature_low'' \<and> x < tempMin t)
     \<or> (a = ''temperature_high'' \<and> \<not> x < tempMin t \<and> x > tempMax t)
     \<or> (a = ''temperature_good'' \<and> \<not> x < tempMin t \<and> \<not> x > tempMax t)"
  by (auto simp add: fires_def temperature_rule_def)

lemma fires_humidity_rule:
  "fires a (humidity_rule t h) \<longleftrightarrow>
     (a = ''humidity_low'' \<and> h < humidity t - 10)
     \<or> (a = ''humidity_high'' \<and> \<not> h < humidity t - 10 \<and> h > humidity t + 15)"
  by (auto simp add: fires_def humidity_rule_def)

lemma fires_energy_rule:
  "fires a (energy_rule t x th) \<longleftrightarrow>
     a = ''optimize_energy'' \<and> th > 10 \<and> x > tempMax t"
  by (auto simp add: fires_def energy_rule_def)

lemma fires_fans_rule:
  "fires a (fans_rule t x eqs) \<longleftrightarrow>
     a = ''optimize_fans'' \<and> length (activeFans eqs) > 1 \<and> tempMin t \<le> x \<and> x \<le> tempMax t"
  by (auto simp add: fires_def fans_rule_def)

lemma fires_heating_rule:
  "fires a (heating_rule t x eqs) \<longleftrightarrow>
     a = ''activate_heating'' \<and> length (activeHeaters eqs) = 0 \<and> x < tempMin t - 2"
  by (auto simp add: fires_def heating_rule_def)

lemmas fires_rules =
  fires_append fires_temperature_rule fires_humidity_rule fires_energy_rule
  fires_fans_rule fires_heating_rule

lemma fires_generateRecommendations:
  "fires a (generateRecommendations x h age th tc eqs) \<longleftrightarrow>
     fires a (temperature_rule (targets_for age) x age)
     \<or> fires a (humidity_rule (targets_for age) h)
     \<or> fires a (energy_rule (targets_for age) x th)
     \<or> fires a (fans_rule (targets_for age) x eqs)
     \<or> fires a (heating_rule (targets_for age) x eqs)"
  by (simp add: generateRecommendations_def Let_def fires_append)

text \<open>In every band of the table the lower bound is below the upper one.\<close>

lemma targets_for_band: "tempMin (targets_for age) < tempMax (targets_for age)"
  by (simp add: targets_for_def AGE_TARGETS_def Let_def)

lemma optional_rules_length:
  assumes "tempMin t < tempMax t"
  shows "length (energy_rule t x th) + length (fans_rule t x eqs)
           + length (heating_rule t x eqs) \<le> 1"
  using assms by (simp add: energy_rule_def fans_rule_def heating_rule_def)

lemma generateRecommendations_length:
  "length (generateRecommendations x h age th tc eqs) =
     1 + length (humidity_rule (targets_for age) h)
       + (length (energy_rule (targets_for age) x th)
          + length (fans_rule (targets_for age) x eqs)
          + length (heating_rule (targets_for age) x eqs))"
  by (simp add: generateRecommendations_def Let_def temperature_rule_actions)

lemmas rule_defs =
  generateRecommendations_def temperature_rule_def humidity_rule_def energy_rule_def
  fans_rule_def heating_rule_def targets_for_def AGE_TARGETS_def

subsection \<open>Fields of the simulation result\<close>

lemma insideTemp_result:
  "insideTemp (calculateInsideTemperature farm eqs ot oh w flockAge)
     = Math_round (temp_after_ventilation farm eqs ot w * 10) / 10"
  by (simp add: calculateInsideTemperature_def Let_def)

lemma ventilationEffect_result:
  "ventilationEffect (calculateInsideTemperature farm eqs ot oh w flockAge)
     = Math_round (sum_ventilation eqs w * 10) / 10"
  by (simp add: calculateInsideTemperature_def Let_def)

lemma insideHumidity_result:
  "insideHumidity (calculateInsideTemperature farm eqs ot oh w flockAge)
     = Math_round (humidity_step (temp_after_ventilation farm eqs ot w) ot oh * 10) / 10"
  by (simp add: calculateInsideTemperature_def Let_def)

subsection \<open>Rounding to tenths, and the humidity step\<close>

lemma Math_round_numeral: "Math_round (numeral k) = numeral k"
  using Math_round_of_int [of "numeral k"] by simp

lemma rounded_tenths_in_range:
  assumes "30 \<le> v" and "v \<le> 100"
  shows "30 \<le> Math_round (v * 10) / 10 \<and> Math_round (v * 10) / 10 \<le> 100"
proof -
  have "Math_round 300 \<le> Math_round (v * 10)"
    using assms by (intro Math_round_mono) simp
  moreover have "Math_round (v * 10) \<le> Math_round 1000"
    using assms by (intro Math_round_mono) simp
  ultimately show ?thesis
    by (simp add: Math_round_numeral)
qed

lemma humidity_step_warm:
  "inside > ot \<Longrightarrow> 30 \<le> humidity_step inside ot oh \<and> humidity_step inside ot oh \<le> 100"
  by (simp add: humidity_step_def)

lemma humidity_step_cold: "\<not> inside > ot \<Longrightarrow> humidity_step inside ot oh = oh"
  by (simp add: humidity_step_def)

subsection \<open>Binary64: the exponent and the rounding\<close>

text \<open>
  \<open>exponent2\<close> is the binary exponent, and \<open>binary64 x\<close> is a multiple of the quantum
  \<open>2\<^sup>q\<close> within half a quantum of \<open>x\<close>, where \<open>q\<close> is the exponent of \<open>x\<close> less 52.
\<close>

lemma bit_length_bounds:
  "0 < n \<Longrightarrow> 2 ^ (bit_length n - 1) \<le> n \<and> n < 2 ^ bit_length n"
proof (induction n rule: bit_length.induct)
  case (1 n)
  show ?case
  proof (cases "n div 2 = 0")
    case True
    with "1.prems" have "n = 1" by (auto simp add: div_eq_0_iff)
    then show ?thesis
      by (simp add: bit_length.simps)
  next
    case False
    then have pos: "0 < n div 2" by simp
    from "1.prems" have n0: "n \<noteq> 0" by simp
    have ih: "2 ^ (bit_length (n div 2) - 1) \<le> n div 2 \<and> n div 2 < 2 ^ bit_length (n div 2)"
      using "1.IH" [OF n0 pos] .
    have bl: "bit_length n = Suc (bit_length (n div 2))"
      using n0 by (subst bit_length.simps) simp
    have bpos: "0 < bit_length (n div 2)"
      using pos by (subst bit_length.simps) simp
    then obtain k where k: "bit_length (n div 2) = Suc k"
      by (cases "bit_length (n div 2)") simp_all
    from ih have "2 * 2 ^ k \<le> 2 * (n div 2)" and "2 * (n div 2) + 1 < 2 * 2 ^ Suc k"
      by (simp_all add: k)
    then have "2 ^ Suc k \<le> n" and "n < 2 ^ Suc (Suc k)"
      by simp_all
    then show ?thesis
      by (simp add: bl k)
  qed
qed

lemma bit_length_real_bounds:
  assumes "0 < n"
  shows "(2::real) ^ (bit_length n - 1) \<le> real n \<and> real n + 1 \<le> 2 ^ bit_length n
    \<and> 0 < bit_length n"
proof -
  from bit_length_bounds [OF assms]
  have b: "2 ^ (bit_length n - 1) \<le> n" "n + 1 \<le> 2 ^ bit_length n"
    by simp_all
  have "real (2 ^ (bit_length n - 1)) \<le> real n"
    using b(1) by (simp only: of_nat_le_iff)
  then have r1: "(2::real) ^ (bit_length n - 1) \<le> real n"
    by simp
  have "real (n + 1) \<le> real (2 ^ bit_length n)"
    using b(2) by (simp only: of_nat_le_iff)
  then have r2: "real n + 1 \<le> (2::real) ^ bit_length n"
    by simp
  have "0 < bit_length n"
    using assms by (subst bit_length.simps) simp
  with r1 r2 show ?thesis
    by blast
qed

lemma exponent2_bounds:
  assumes "0 < x"
  shows "2 powi exponent2 x \<le> x \<and> x < 2 powi (exponent2 x + 1)"
proof (cases "1 \<le> x")
  case True
  define n where "n = nat \<lfloor>x\<rfloor>"
  have n: "0 < n" "real n \<le> x" "x < real n + 1"
    using True by (simp_all add: n_def)
  have e: "exponent2 x = int (bit_length n) - 1"
    using True by (simp add: exponent2_def n_def)
  from bit_length_real_bounds [OF n(1)]
  have r1: "(2::real) ^ (bit_length n - 1) \<le> real n"
    and r2: "real n + 1 \<le> (2::real) ^ bit_length n" and bp: "0 < bit_length n"
    by blast+
  have e1: "exponent2 x = int (bit_length n - 1)"
    using e bp by linarith
  have e2: "exponent2 x + 1 = int (bit_length n)"
    using e by linarith
  have a: "(2::real) ^ (bit_length n - 1) \<le> x" and b: "x < (2::real) ^ bit_length n"
    using r1 r2 n by linarith+
  have "2 powi exponent2 x \<le> x"
    using a by (simp only: e1 power_int_of_nat)
  moreover have "x < 2 powi (exponent2 x + 1)"
    using b by (simp only: e2 power_int_of_nat)
  ultimately show ?thesis
    by blast
next
  case False
  define n where "n = nat (\<lceil>1 / x\<rceil> - 1)"
  from False assms have x1: "1 < 1 / x" by simp
  then have c2: "2 \<le> \<lceil>1 / x\<rceil>" by linarith
  have n: "0 < n" "real n < 1 / x" "1 / x \<le> real n + 1"
    using c2 by (simp_all add: n_def) linarith+
  have e: "exponent2 x = - int (bit_length n)"
    using False by (simp add: exponent2_def n_def)
  from bit_length_real_bounds [OF n(1)]
  have r1: "(2::real) ^ (bit_length n - 1) \<le> real n"
    and r2: "real n + 1 \<le> (2::real) ^ bit_length n" and bp: "0 < bit_length n"
    by blast+
  have e2: "exponent2 x + 1 = - int (bit_length n - 1)"
    using e bp by linarith
  have lo: "1 / x \<le> 2 ^ bit_length n"
    using n(3) r2 by linarith
  have hi: "2 ^ (bit_length n - 1) < 1 / x"
    using n(2) r1 by linarith
  have p1: "(0::real) < 2 ^ bit_length n" and p2: "(0::real) < 2 ^ (bit_length n - 1)"
    by simp_all
  have a: "inverse (2 ^ bit_length n) \<le> x"
  proof -
    have "inverse (2 ^ bit_length n) \<le> inverse (1 / x)"
      using lo assms by (intro le_imp_inverse_le) simp_all
    then show ?thesis by simp
  qed
  have b: "x < inverse (2 ^ (bit_length n - 1))"
  proof -
    have "inverse (1 / x) < inverse (2 ^ (bit_length n - 1))"
      using hi p2 by (intro less_imp_inverse_less) simp_all
    then show ?thesis by simp
  qed
  have "2 powi exponent2 x \<le> x"
    using a by (simp only: e power_int_minus power_int_of_nat)
  moreover have "x < 2 powi (exponent2 x + 1)"
    using b by (simp only: e2 power_int_minus power_int_of_nat)
  ultimately show ?thesis
    by blast
qed

lemma round_even_error: "\<bar>of_int (round_even x) - x\<bar> \<le> 1 / 2"
  unfolding round_even_def Let_def by (auto split: if_splits)

lemma binary64_error:
  "\<bar>binary64 x - x\<bar> \<le> 2 powi (max (exponent2 \<bar>x\<bar> - 52) (- 1074)) / 2"
proof (cases "x = 0")
  case True
  then show ?thesis
    by (simp add: binary64_def)
next
  case False
  define p :: real where "p = 2 powi (max (exponent2 \<bar>x\<bar> - 52) (- 1074))"
  have p: "0 < p"
    by (simp add: p_def)
  have b: "binary64 x = of_int (round_even (x / p)) * p"
    using False by (simp add: binary64_def Let_def p_def)
  have "binary64 x - x = (of_int (round_even (x / p)) - x / p) * p"
    using p by (simp add: b algebra_simps)
  then have "\<bar>binary64 x - x\<bar> = \<bar>of_int (round_even (x / p)) - x / p\<bar> * p"
    using p by (simp add: abs_mult)
  also have "\<dots> \<le> 1 / 2 * p"
    using round_even_error [of "x / p"] p by (intro mult_right_mono) simp_all
  finally show ?thesis
    by (simp add: p_def)
qed

text \<open>Three familiar doubles: 1, 0.1, and 0.1 + 0.2 = 0.30000000000000004.\<close>

lemmas b64 = binary64_def exponent2_def round_even_def bit_length.simps Let_def

lemmas d_ops = d_add_def d_sub_def d_mul_def d_div_def

lemma binary64_examples:
  "binary64 1 = 1"
  "binary64 (1 / 10) = 3602879701896397 / 36028797018963968"
  "d_add (binary64 (1 / 10)) (binary64 (2 / 10)) = 1351079888211149 / 4503599627370496"
  by (simp_all add: d_ops b64)

subsection \<open>Binary64: the steps at the small enclosure\<close>

lemma replicate_20: "replicate 20 x = [x, x, x, x, x, x, x, x, x, x, x, x, x, x, x, x, x, x, x, x]"
  by (simp add: numeral_eq_Suc)

lemma d_farm_volume_small: "d_farm_volume small_farm = 3"
  by (simp add: d_farm_volume_def small_farm_def d_ops b64)

lemma d_sum_heating_small: "d_sum_heating heater_and_fans = 3 / 2"
  by (simp add: d_sum_heating_def heater_and_fans_def replicate_20 activeHeaters_def
      heater_of_def fan_of_def truthy_def spec_field_def or_zero_def d_ops b64)

lemma d_sum_cooling_small: "d_sum_cooling heater_and_fans = 3400"
  by (simp add: d_sum_cooling_def heater_and_fans_def replicate_20 activeFans_def
      heater_of_def fan_of_def truthy_def spec_field_def or_zero_def fan_airflowFactor_def
      d_ops b64)

lemma d_heating_effect_small:
  "d_heating_effect (3 / 2) 3 = 5629499534213121 / 281474976710656"
  by (simp add: d_heating_effect_def heater_efficiencyFactor_def heater_temperatureRise_def
      d_ops b64)

lemma binary64_outside: "binary64 (159 / 10) = 8950904259398861 / 562949953421312"
  by (simp add: b64)

lemma d_temp_after_heating_small:
  "d_temp_after_heating small_farm heater_and_fans (binary64 (159 / 10))
     = 1263118957989069 / 35184372088832"
  by (simp add: d_temp_after_heating_def d_farm_volume_small d_sum_heating_small
      d_heating_effect_small binary64_outside)
    (simp add: d_ops b64)

lemma d_excess_small:
  "d_sub (1263118957989069 / 35184372088832) (binary64 (159 / 10))
     = 2814749767106561 / 140737488355328"
  by (simp add: binary64_outside) (simp add: d_ops b64)

lemma d_cooling_effect_small:
  "d_cooling_effect 3400 (1263118957989069 / 35184372088832) (binary64 (159 / 10)) 3
     = 2814749767106561 / 140737488355328"
  by (simp add: d_cooling_effect_def d_excess_small) (simp add: d_ops b64)

lemma d_temp_after_cooling_small:
  "d_temp_after_cooling small_farm heater_and_fans (binary64 (159 / 10))
     = 2237726064849715 / 140737488355328"
  by (simp add: d_temp_after_cooling_def d_temp_after_heating_small d_sum_cooling_small
      d_farm_volume_small d_cooling_effect_small)
    (simp add: d_ops b64)

lemma temp_after_cooling_small: "temp_after_cooling small_farm heater_and_fans (159 / 10) = 159 / 10"
  by (simp add: temp_defs aggregate_defs small_farm_def heater_and_fans_def replicate_20
      heater_of_def fan_of_def)

subsection \<open>The growth projector\<close>

lemma hasGoodTemp_fires: "hasGoodTemp env \<longleftrightarrow> fires ''temperature_good'' (recommendations env)"
  unfolding hasGoodTemp_def fires_def list_ex_iff image_iff by (rule bex_cong) auto

lemma baseGrowthRate_ge: "10 \<le> baseGrowthRate flock"
  by (simp add: baseGrowthRate_def)

section \<open>The claims\<close>

subsection \<open>C1: the ventilation effect and the inlet surface\<close>

text \<open>
  The ventilation sum of the simulator never reads the specification of an inlet: replacing
  every specification leaves it unchanged. The surface therefore cannot enter the result.
\<close>

lemma sum_ventilation_ignores_specification:
  "sum_ventilation (map (\<lambda>e. e\<lparr>specification_f := sp e\<rparr>) equipment) w
     = sum_ventilation equipment w"
  by (induction equipment) (simp_all add: sum_ventilation_sum_list inlets_def)

text \<open>
  C1 states that \<open>ventilationEffect\<close> is the sum over the inlets of
  \<open>surface * (velocityFactor / 100) * currentSetting * coolingFactor * windSpeed * 0.1\<close>
  and so depends on the surface of each inlet. The code at one inlet of surface 2 opened at
  40 percent, wind speed 10: the sum is 0.1, and so is the returned field, where the stated
  formula gives 0.2. With surface 7 the code computes the same 0.1, and the stated formula
  0.7.
\<close>

theorem ventilationEffect_ignores_surface:
  "sum_ventilation [inlet_of 2 40] 10 = 1 / 10
   \<and> ventilationEffect
       (calculateInsideTemperature example_farm [inlet_of 2 40] 22 45 10 None) = 1 / 10
   \<and> spec_ventilationEffect [inlet_of 2 40] 10 = 2 / 10
   \<and> sum_ventilation [inlet_of 7 40] 10 = 1 / 10
   \<and> spec_ventilationEffect [inlet_of 7 40] 10 = 7 / 10"
  by (simp add: ventilationEffect_result spec_ventilationEffect_def example_defs
      aggregate_defs Math_round_def)

subsection \<open>C2: the two aggregations differ\<close>

text \<open>
  C2: the fan-cooling sum of the shared module and the one of the request handler are not
  extensionally equal. For one active fan of diameter \<open>d\<close> at setting \<open>s\<close> the first is
  \<open>d * 0.85 * s / 100\<close> and the second \<open>pi * (d / 200)\<^sup>2 * s * 50\<close>; they differ at
  \<open>d = s = 100\<close>. The inlet-ventilation sums differ too: 0.25 against 1 for one inlet of
  surface 1, fully open, at wind speed 10.
\<close>

theorem aggregations_differ:
  "sum_cooling [fan_of d s] = d * (85 / 100) * s / 100
   \<and> route_totalCooling [fan_of d s] = pi * (d / 200) ^ 2 * s * 50
   \<and> sum_cooling [fan_of 100 100] \<noteq> route_totalCooling [fan_of 100 100]
   \<and> sum_ventilation [inlet_of 1 100] 10 = 1 / 4
   \<and> route_ventilationEffect [inlet_of 1 100] 10 = 1
   \<and> (\<exists>equipment. sum_cooling equipment \<noteq> route_totalCooling equipment)
   \<and> (\<exists>equipment w. sum_ventilation equipment w \<noteq> route_ventilationEffect equipment w)"
proof -
  have a: "sum_cooling [fan_of d s] = d * (85 / 100) * s / 100" for d s
    by (simp add: example_defs aggregate_defs)
  have b: "route_totalCooling [fan_of d s] = pi * (d / 200) ^ 2 * s * 50" for d s
    by (simp add: route_totalCooling_def example_defs aggregate_defs)
  have c: "sum_cooling [fan_of 100 100] \<noteq> route_totalCooling [fan_of 100 100]"
    using pi_ge_two by (simp add: a b power2_eq_square)
  have d: "sum_ventilation [inlet_of 1 100] 10 = 1 / 4"
    by (simp add: example_defs aggregate_defs)
  have e: "route_ventilationEffect [inlet_of 1 100] 10 = 1"
    by (simp add: route_ventilationEffect_def example_defs aggregate_defs)
  have f: "sum_ventilation [inlet_of 1 100] 10 \<noteq> route_ventilationEffect [inlet_of 1 100] 10"
    by (simp add: d e)
  show ?thesis
    using a b c d e f by blast
qed

subsection \<open>C3: the returned humidity\<close>

text \<open>
  C3 as stated says that, when the computed inside temperature is not above the outside one,
  the returned humidity equals the supplied outside humidity exactly. It does not: the result
  is rounded to one decimal. With no equipment the temperature stays at the outside value, and
  an outside humidity of 45.27 is returned as 45.3.
\<close>

theorem humidity_not_exact_counterexample:
  "\<not> temp_after_ventilation example_farm [] 22 12 > 22
   \<and> insideHumidity (calculateInsideTemperature example_farm [] 22 (4527 / 100) 12 None)
       \<noteq> 4527 / 100"
  by (simp add: insideHumidity_result humidity_step_def temp_defs example_defs aggregate_defs
      Math_round_def)

text \<open>
  C3, amended: whenever the inside temperature the simulation computes (before the result is
  rounded) is strictly greater than the outside temperature, the returned humidity lies in
  \<open>[30, 100]\<close>; otherwise the returned humidity is the outside humidity rounded to one
  decimal, \<open>Math.round(outsideHumidity * 10) / 10\<close>.
\<close>

theorem humidity_clamped_or_rounded:
  "(temp_after_ventilation farm eqs ot w > ot \<longrightarrow>
      30 \<le> insideHumidity (calculateInsideTemperature farm eqs ot oh w flockAge)
      \<and> insideHumidity (calculateInsideTemperature farm eqs ot oh w flockAge) \<le> 100)
   \<and> (\<not> temp_after_ventilation farm eqs ot w > ot \<longrightarrow>
      insideHumidity (calculateInsideTemperature farm eqs ot oh w flockAge)
        = Math_round (oh * 10) / 10)"
proof (intro conjI impI)
  assume warm: "temp_after_ventilation farm eqs ot w > ot"
  have "30 \<le> humidity_step (temp_after_ventilation farm eqs ot w) ot oh"
    and "humidity_step (temp_after_ventilation farm eqs ot w) ot oh \<le> 100"
    using humidity_step_warm [OF warm, of oh] by simp_all
  then have r: "30 \<le> Math_round (humidity_step (temp_after_ventilation farm eqs ot w) ot oh * 10) / 10
      \<and> Math_round (humidity_step (temp_after_ventilation farm eqs ot w) ot oh * 10) / 10 \<le> 100"
    by (rule rounded_tenths_in_range)
  show "30 \<le> insideHumidity (calculateInsideTemperature farm eqs ot oh w flockAge)"
    using r by (simp add: insideHumidity_result)
  show "insideHumidity (calculateInsideTemperature farm eqs ot oh w flockAge) \<le> 100"
    using r by (simp add: insideHumidity_result)
next
  assume cold: "\<not> temp_after_ventilation farm eqs ot w > ot"
  show "insideHumidity (calculateInsideTemperature farm eqs ot oh w flockAge)
      = Math_round (oh * 10) / 10"
    by (simp add: insideHumidity_result humidity_step_cold [OF cold])
qed

text \<open>
  Both branches at concrete inputs: one heater of 15 kW at 45 percent warms the enclosure
  and an outside humidity of 20 is clamped into the range; with no equipment 45.27 becomes
  45.3.
\<close>

theorem humidity_clamped_or_rounded_witness:
  "temp_after_ventilation example_farm [heater_of 15 45] 22 12 > 22
   \<and> 30 \<le> insideHumidity
        (calculateInsideTemperature example_farm [heater_of 15 45] 22 20 12 None)
   \<and> insideHumidity
        (calculateInsideTemperature example_farm [heater_of 15 45] 22 20 12 None) \<le> 100
   \<and> \<not> temp_after_ventilation example_farm [] 22 12 > 22
   \<and> insideHumidity (calculateInsideTemperature example_farm [] 22 (4527 / 100) 12 None)
       = 453 / 10"
proof -
  have warm: "temp_after_ventilation example_farm [heater_of 15 45] 22 12 > 22"
    by (simp add: temp_defs example_defs aggregate_defs)
  have cold: "\<not> temp_after_ventilation example_farm [] 22 12 > 22"
    by (simp add: temp_defs example_defs aggregate_defs)
  have r: "Math_round (4527 / 100 * 10) / 10 = 453 / 10"
    by (simp add: Math_round_def)
  show ?thesis
    using warm cold r
      humidity_clamped_or_rounded [where farm = example_farm and eqs = "[heater_of 15 45]"
        and ot = 22 and w = 12 and oh = 20 and flockAge = None]
      humidity_clamped_or_rounded [where farm = example_farm and eqs = "[]"
        and ot = 22 and w = 12 and oh = "4527 / 100" and flockAge = None]
    by simp
qed

subsection \<open>C4: one temperature advisory\<close>

text \<open>
  C4: for every inside temperature, humidity, age, heating total, cooling total and equipment
  list, exactly one advisory of the list returned by the recommendation generator carries
  one of the codes \<open>temperature_low\<close>, \<open>temperature_high\<close>, \<open>temperature_good\<close>. The same
  holds for the recommendations attached to a simulation result.
\<close>

theorem exactly_one_temperature_advisory:
  "length (filter (\<lambda>r. is_temperature_action (action r))
     (generateRecommendations x h age th tc eqs)) = 1
   \<and> length (filter (\<lambda>r. is_temperature_action (action r))
     (recommendations (calculateInsideTemperature farm eqs ot oh w flockAge))) = 1"
  by (simp add: calculateInsideTemperature_def Let_def temperature_advisory_count)

subsection \<open>C5: no active heater and no active fan\<close>

text \<open>
  C5 as stated says that the returned \<open>insideTemp\<close> equals \<open>outsideTemp\<close> minus the returned
  \<open>ventilationEffect\<close>. Both returned values are rounded to one decimal, so the equation
  fails: one inlet opened at 40 percent, wind speed 10, outside temperature 22.04 gives a
  returned \<open>insideTemp\<close> of 21.9, while 22.04 minus the returned \<open>ventilationEffect\<close> 0.1
  is 21.94.
\<close>

theorem passive_temperature_counterexample:
  "activeHeaters [inlet_of 2 40] = [] \<and> activeFans [inlet_of 2 40] = []
   \<and> 0 < farm_volume example_farm
   \<and> insideTemp (calculateInsideTemperature example_farm [inlet_of 2 40] (2204 / 100) 45 10 None)
       = 219 / 10
   \<and> 2204 / 100
       - ventilationEffect
           (calculateInsideTemperature example_farm [inlet_of 2 40] (2204 / 100) 45 10 None)
       = 2194 / 100
   \<and> insideTemp (calculateInsideTemperature example_farm [inlet_of 2 40] (2204 / 100) 45 10 None)
       \<noteq> 2204 / 100
         - ventilationEffect
             (calculateInsideTemperature example_farm [inlet_of 2 40] (2204 / 100) 45 10 None)"
  by (simp add: insideTemp_result ventilationEffect_result temp_defs example_defs
      aggregate_defs Math_round_def)

text \<open>
  C5, amended: for every equipment list with no active heater and no active fan, and every
  enclosure of positive volume, the heating and the cooling contributions are exactly zero,
  the inside temperature before rounding equals \<open>outsideTemp\<close> minus the unrounded
  ventilation sum, and the returned \<open>insideTemp\<close> and \<open>ventilationEffect\<close> are these two
  values, each rounded to one decimal.
\<close>

theorem passive_temperature:
  assumes "activeHeaters eqs = []" and "activeFans eqs = []" and "0 < farm_volume farm"
  shows "heating_effect (sum_heating eqs) (farm_volume farm) = 0
    \<and> cooling_effect (sum_cooling eqs) (temp_after_heating farm eqs ot) ot (farm_volume farm) = 0
    \<and> temp_after_ventilation farm eqs ot w = ot - sum_ventilation eqs w
    \<and> insideTemp (calculateInsideTemperature farm eqs ot oh w flockAge)
        = Math_round ((ot - sum_ventilation eqs w) * 10) / 10
    \<and> ventilationEffect (calculateInsideTemperature farm eqs ot oh w flockAge)
        = Math_round (sum_ventilation eqs w * 10) / 10"
proof -
  have h: "sum_heating eqs = 0"
    by (simp add: sum_heating_sum_list assms(1))
  have c: "sum_cooling eqs = 0"
    by (simp add: sum_cooling_sum_list assms(2))
  have he: "heating_effect (sum_heating eqs) (farm_volume farm) = 0"
    by (simp add: h heating_effect_def)
  have t1: "temp_after_heating farm eqs ot = ot"
    by (simp add: temp_after_heating_def he)
  have ce: "cooling_effect (sum_cooling eqs) (temp_after_heating farm eqs ot) ot
      (farm_volume farm) = 0"
    by (simp add: c t1 cooling_effect_def)
  have t2: "temp_after_cooling farm eqs ot = ot"
    using ce t1 by (simp add: temp_after_cooling_def Let_def)
  have t3: "temp_after_ventilation farm eqs ot w = ot - sum_ventilation eqs w"
    by (simp add: temp_after_ventilation_def t2)
  show ?thesis
    using he ce t3 by (simp add: insideTemp_result ventilationEffect_result)
qed

text \<open>The amended statement at the input of the counterexample.\<close>

theorem passive_temperature_witness:
  "activeHeaters [inlet_of 2 40] = [] \<and> activeFans [inlet_of 2 40] = []
   \<and> 0 < farm_volume example_farm
   \<and> temp_after_ventilation example_farm [inlet_of 2 40] (2204 / 100) 10 = 2194 / 100
   \<and> insideTemp (calculateInsideTemperature example_farm [inlet_of 2 40] (2204 / 100) 45 10 None)
       = 219 / 10"
proof -
  have a: "activeHeaters [inlet_of 2 40] = []" and b: "activeFans [inlet_of 2 40] = []"
    by (simp_all add: activeHeaters_def activeFans_def inlet_of_def)
  have v: "0 < farm_volume example_farm"
    by (simp add: farm_volume_def example_farm_def)
  have s: "sum_ventilation [inlet_of 2 40] 10 = 1 / 10"
    by (simp add: example_defs aggregate_defs)
  show ?thesis
    using a b v passive_temperature [OF a b v, of "2204 / 100" 10 45 None]
    by (simp add: s Math_round_def)
qed

subsection \<open>C6: cooling and the outside temperature\<close>

text \<open>
  C6 states that, for positive volume and non-negative powers, diameters and settings, the
  running inside temperature right after the cooling step is at least the outside
  temperature, the \<open>min\<close> bounding the cooling effect by \<open>insideTemp - outsideTemp\<close>. In exact
  arithmetic this holds (lemma \<open>temp_after_cooling_ge\<close>), since \<open>t - (t - o) = o\<close>. The code
  computes in doubles, and when the \<open>min\<close> clips it returns the rounded difference, which may
  exceed the true one.

  The code at the small enclosure (3 by 1 by 1), one heater of 15 kW at 10 percent, twenty
  fans of 200 cm at 100 percent, outside temperature 15.9: every hypothesis of C6 holds; the
  temperature after heating is 35.900000000000006; the \<open>min\<close> clips, so the cooling effect is
  the rounded excess 20.000000000000007; the temperature after cooling is
  15.899999999999999, below the outside temperature 15.9. Exact arithmetic gives 15.9.
\<close>

theorem cooling_below_outside_in_doubles:
  "0 < d_farm_volume small_farm
   \<and> list_all (\<lambda>eq. 0 \<le> or_zero (spec_field power_f eq)
         \<and> 0 \<le> or_zero (spec_field diameter eq) \<and> 0 \<le> or_zero (currentSetting eq))
       heater_and_fans
   \<and> d_temp_after_heating small_farm heater_and_fans (binary64 (159 / 10))
       = 1263118957989069 / 35184372088832
   \<and> d_cooling_effect (d_sum_cooling heater_and_fans)
         (d_temp_after_heating small_farm heater_and_fans (binary64 (159 / 10)))
         (binary64 (159 / 10)) (d_farm_volume small_farm)
       = d_sub (d_temp_after_heating small_farm heater_and_fans (binary64 (159 / 10)))
           (binary64 (159 / 10))
   \<and> d_temp_after_cooling small_farm heater_and_fans (binary64 (159 / 10))
       = 2237726064849715 / 140737488355328
   \<and> d_temp_after_cooling small_farm heater_and_fans (binary64 (159 / 10))
       < binary64 (159 / 10)
   \<and> temp_after_cooling small_farm heater_and_fans (159 / 10) = 159 / 10"
proof -
  have v: "0 < d_farm_volume small_farm"
    by (simp add: d_farm_volume_small)
  have n: "list_all (\<lambda>eq. 0 \<le> or_zero (spec_field power_f eq)
        \<and> 0 \<le> or_zero (spec_field diameter eq) \<and> 0 \<le> or_zero (currentSetting eq))
      heater_and_fans"
    by (simp add: heater_and_fans_def replicate_20 heater_of_def fan_of_def spec_field_def
        or_zero_def)
  have c: "d_cooling_effect (d_sum_cooling heater_and_fans)
        (d_temp_after_heating small_farm heater_and_fans (binary64 (159 / 10)))
        (binary64 (159 / 10)) (d_farm_volume small_farm)
      = d_sub (d_temp_after_heating small_farm heater_and_fans (binary64 (159 / 10)))
          (binary64 (159 / 10))"
    by (simp only: d_sum_cooling_small d_temp_after_heating_small d_farm_volume_small
        d_cooling_effect_small d_excess_small)
  have l: "d_temp_after_cooling small_farm heater_and_fans (binary64 (159 / 10))
      < binary64 (159 / 10)"
    by (simp only: d_temp_after_cooling_small) (simp add: binary64_outside)
  show ?thesis
    using v n c l d_temp_after_heating_small d_temp_after_cooling_small
      temp_after_cooling_small
    by blast
qed

subsection \<open>C7: the feed conversion ratio\<close>

text \<open>
  C7: for every flock and simulation result the growth projector returns
  \<open>fcr = 1.2 + currentAge * 0.01 + (0 if temperature_good is among the recommendations,
  else 0.2)\<close>, rounded to 2 decimals; the age being an integer, the rounding leaves the sum
  as it is. For \<open>currentAge = 42\<close> without a \<open>temperature_good\<close> advisory, \<open>fcr = 1.82\<close> and
  \<open>environmentalFactor = 0.85\<close>.
\<close>

theorem fcr_formula:
  "fcr (calculateGrowthProjections flock env)
     = Math_round ((12 / 10 + of_int (currentAge flock) * (1 / 100)
         + (if fires ''temperature_good'' (recommendations env) then 0 else 2 / 10)) * 100) / 100
   \<and> fcr (calculateGrowthProjections flock env)
     = 12 / 10 + of_int (currentAge flock) * (1 / 100)
         + (if fires ''temperature_good'' (recommendations env) then 0 else 2 / 10)
   \<and> (currentAge flock = 42 \<and> \<not> fires ''temperature_good'' (recommendations env) \<longrightarrow>
        fcr (calculateGrowthProjections flock env) = 182 / 100
        \<and> environmentalFactor (calculateGrowthProjections flock env) = 85 / 100)"
proof -
  define b :: int where
    "b = (if fires ''temperature_good'' (recommendations env) then 0 else 20)"
  define raw :: real where
    "raw = 12 / 10 + of_int (currentAge flock) * (1 / 100)
         + (if fires ''temperature_good'' (recommendations env) then 0 else 2 / 10)"
  have f: "fcr (calculateGrowthProjections flock env) = Math_round (raw * 100) / 100"
    by (simp add: calculateGrowthProjections_def Let_def hasGoodTemp_fires raw_def)
  have "raw * 100 = of_int (120 + currentAge flock + b)"
    by (simp add: raw_def b_def algebra_simps)
  then have "Math_round (raw * 100) = raw * 100"
    by (simp only: Math_round_of_int)
  then have g: "fcr (calculateGrowthProjections flock env) = raw"
    by (simp add: f)
  have e: "environmentalFactor (calculateGrowthProjections flock env) = 85 / 100"
    if "\<not> fires ''temperature_good'' (recommendations env)"
    using that
    by (simp add: calculateGrowthProjections_def Let_def hasGoodTemp_fires Math_round_numeral)
  have s: "fcr (calculateGrowthProjections flock env) = 182 / 100"
    if "currentAge flock = 42" and "\<not> fires ''temperature_good'' (recommendations env)"
    using that by (simp add: g raw_def)
  show ?thesis
    using f g e s unfolding raw_def by blast
qed

text \<open>
  Scenario D: a flock of age 42 and the result of simulating the empty enclosure at 22
  degrees, which is above the band of that age.
\<close>

theorem fcr_formula_witness:
  "currentAge example_flock = 42
   \<and> \<not> fires ''temperature_good''
         (recommendations (calculateInsideTemperature example_farm [] 22 45 12 (Some 42)))
   \<and> fcr (calculateGrowthProjections example_flock
         (calculateInsideTemperature example_farm [] 22 45 12 (Some 42))) = 182 / 100
   \<and> environmentalFactor (calculateGrowthProjections example_flock
         (calculateInsideTemperature example_farm [] 22 45 12 (Some 42))) = 85 / 100"
proof -
  have a: "currentAge example_flock = 42"
    by (simp add: example_flock_def)
  have t: "temp_after_ventilation example_farm [] 22 12 = 22"
    by (simp add: temp_defs example_defs aggregate_defs)
  have r: "recommendations (calculateInsideTemperature example_farm [] 22 45 12 (Some 42))
      = generateRecommendations 22 45 42 0 0 []"
    by (simp add: calculateInsideTemperature_def Let_def t humidity_step_def
        age_or_default_def aggregate_defs)
  have n: "\<not> fires ''temperature_good''
      (recommendations (calculateInsideTemperature example_farm [] 22 45 12 (Some 42)))"
    unfolding r
    by (simp add: fires_generateRecommendations fires_rules targets_for_def AGE_TARGETS_def
        Let_def)
  show ?thesis
    using a n fcr_formula [of example_flock
        "calculateInsideTemperature example_farm [] 22 45 12 (Some 42)"]
    by simp
qed

subsection \<open>C8: the projected weights are ordered\<close>

text \<open>
  C8: the base growth rate \<open>max(10, 50 - currentAge * 0.8)\<close> is non-negative for every flock,
  and the outputs of the growth projector satisfy
  \<open>projectedWeight14d \<ge> projectedWeight7d \<ge> averageWeight\<close>.
\<close>

theorem projected_weights_ordered:
  "0 \<le> baseGrowthRate flock
   \<and> averageWeight flock \<le> projectedWeight7d (calculateGrowthProjections flock env)
   \<and> projectedWeight7d (calculateGrowthProjections flock env)
       \<le> projectedWeight14d (calculateGrowthProjections flock env)"
proof -
  define g where "g = baseGrowthRate flock"
  define e :: real where "e = (if \<not> hasGoodTemp env then 1 * (85 / 100) else 1)"
  have g: "10 \<le> g"
    unfolding g_def by (rule baseGrowthRate_ge)
  have e: "85 / 100 \<le> e"
    by (simp add: e_def)
  have "10 * (85 / 100) \<le> g * e"
    using g e by (intro mult_mono) simp_all
  then have ge: "85 / 10 \<le> g * e"
    by simp
  have p7: "projectedWeight7d (calculateGrowthProjections flock env)
      = Math_round (averageWeight flock + (g * e * 7))"
    by (simp add: calculateGrowthProjections_def Let_def g_def e_def)
  have p14: "projectedWeight14d (calculateGrowthProjections flock env)
      = Math_round (averageWeight flock + (g * e * 14))"
    by (simp add: calculateGrowthProjections_def Let_def g_def e_def)
  have "averageWeight flock \<le> averageWeight flock + (g * e * 7) - 1 / 2"
    using ge by linarith
  also have "\<dots> < Math_round (averageWeight flock + (g * e * 7))"
    by (rule Math_round_gt)
  finally have a: "averageWeight flock \<le> projectedWeight7d (calculateGrowthProjections flock env)"
    by (simp add: p7)
  have b: "projectedWeight7d (calculateGrowthProjections flock env)
      \<le> projectedWeight14d (calculateGrowthProjections flock env)"
    unfolding p7 p14 using ge by (intro Math_round_mono) linarith
  show ?thesis
    using a b g by (simp add: g_def)
qed

subsection \<open>C9: a flock age of 0\<close>

text \<open>
  C9: the simulation called with \<open>flockAge = 0\<close> returns what it returns with \<open>flockAge\<close>
  absent. Both call the recommendation generator with age 18, whose band is the one of day
  14 (\<open>tempMin\<close> 27, \<open>tempMax\<close> 30), not the one of day 0 (\<open>tempMin\<close> 32, \<open>tempMax\<close> 35).
\<close>

theorem flockAge_zero_is_absent:
  "calculateInsideTemperature farm eqs ot oh w (Some 0)
     = calculateInsideTemperature farm eqs ot oh w None
   \<and> age_or_default (Some 0) = 18 \<and> age_or_default None = 18
   \<and> recommendations (calculateInsideTemperature farm eqs ot oh w (Some 0))
       = generateRecommendations (temp_after_ventilation farm eqs ot w)
           (humidity_step (temp_after_ventilation farm eqs ot w) ot oh) 18
           (sum_heating eqs) (sum_cooling eqs) eqs
   \<and> targets_for 18 = \<lparr>tempMin = 27, tempMax = 30, humidity = 65, ventilation = 30\<rparr>
   \<and> targets_for 0 = \<lparr>tempMin = 32, tempMax = 35, humidity = 60, ventilation = 20\<rparr>"
  by (simp add: calculateInsideTemperature_def age_or_default_def Let_def targets_for_def
      AGE_TARGETS_def)

subsection \<open>C10: between one and three advisories\<close>

text \<open>
  C10: the recommendation generator returns between 1 and 3 advisories. Exactly one
  temperature advisory fires; \<open>humidity_low\<close> and \<open>humidity_high\<close> never fire together;
  \<open>optimize_energy\<close> needs the temperature above \<open>tempMax\<close>, \<open>optimize_fans\<close> needs it
  within the band, \<open>activate_heating\<close> needs it below \<open>tempMin - 2\<close>, and no two of
  these three fire together.
\<close>

theorem between_one_and_three_advisories:
  "(let recs = generateRecommendations x h age th tc eqs; t = targets_for age
    in 1 \<le> length recs \<and> length recs \<le> 3
       \<and> length (filter (\<lambda>r. is_temperature_action (action r)) recs) = 1
       \<and> \<not> (fires ''humidity_low'' recs \<and> fires ''humidity_high'' recs)
       \<and> (fires ''optimize_energy'' recs \<longrightarrow> x > tempMax t)
       \<and> (fires ''optimize_fans'' recs \<longrightarrow> tempMin t \<le> x \<and> x \<le> tempMax t)
       \<and> (fires ''activate_heating'' recs \<longrightarrow> x < tempMin t - 2)
       \<and> \<not> (fires ''optimize_energy'' recs \<and> fires ''optimize_fans'' recs)
       \<and> \<not> (fires ''optimize_energy'' recs \<and> fires ''activate_heating'' recs)
       \<and> \<not> (fires ''optimize_fans'' recs \<and> fires ''activate_heating'' recs))"
proof -
  define t where "t = targets_for age"
  define recs where "recs = generateRecommendations x h age th tc eqs"
  have band: "tempMin t < tempMax t"
    unfolding t_def by (rule targets_for_band)
  have len: "length recs = 1 + length (humidity_rule t h)
      + (length (energy_rule t x th) + length (fans_rule t x eqs) + length (heating_rule t x eqs))"
    unfolding recs_def t_def by (rule generateRecommendations_length)
  have hum: "length (humidity_rule t h) \<le> 1"
    using humidity_rule_actions [of t h] by blast
  have lo: "1 \<le> length recs" and hi: "length recs \<le> 3"
    using len hum optional_rules_length [OF band, of x th eqs] by linarith+
  have one: "length (filter (\<lambda>r. is_temperature_action (action r)) recs) = 1"
    unfolding recs_def by (rule temperature_advisory_count)
  have f: "fires a recs \<longleftrightarrow>
      fires a (temperature_rule t x age) \<or> fires a (humidity_rule t h)
      \<or> fires a (energy_rule t x th) \<or> fires a (fans_rule t x eqs)
      \<or> fires a (heating_rule t x eqs)" for a
    unfolding recs_def t_def by (rule fires_generateRecommendations)
  have hl: "fires ''humidity_low'' recs \<longleftrightarrow> h < humidity t - 10"
    by (simp add: f fires_rules)
  have hh: "fires ''humidity_high'' recs \<longleftrightarrow> \<not> h < humidity t - 10 \<and> h > humidity t + 15"
    by (simp add: f fires_rules)
  have oe: "fires ''optimize_energy'' recs \<longleftrightarrow> th > 10 \<and> x > tempMax t"
    by (simp add: f fires_rules)
  have fa: "fires ''optimize_fans'' recs \<longleftrightarrow>
      length (activeFans eqs) > 1 \<and> tempMin t \<le> x \<and> x \<le> tempMax t"
    by (simp add: f fires_rules)
  have ah: "fires ''activate_heating'' recs \<longleftrightarrow>
      length (activeHeaters eqs) = 0 \<and> x < tempMin t - 2"
    by (simp add: f fires_rules)
  have excl: "\<not> (fires ''humidity_low'' recs \<and> fires ''humidity_high'' recs)"
    "\<not> (fires ''optimize_energy'' recs \<and> fires ''optimize_fans'' recs)"
    "\<not> (fires ''optimize_energy'' recs \<and> fires ''activate_heating'' recs)"
    "\<not> (fires ''optimize_fans'' recs \<and> fires ''activate_heating'' recs)"
    using band unfolding hl hh oe fa ah by linarith+
  have req: "fires ''optimize_energy'' recs \<longrightarrow> x > tempMax t"
    "fires ''optimize_fans'' recs \<longrightarrow> tempMin t \<le> x \<and> x \<le> tempMax t"
    "fires ''activate_heating'' recs \<longrightarrow> x < tempMin t - 2"
    unfolding oe fa ah by simp_all
  show ?thesis
    unfolding Let_def recs_def [symmetric] t_def [symmetric]
    using lo hi one excl req by blast
qed

text \<open>
  Three inputs, one for each of the optional equipment rules: a hot enclosure with 11 kW of
  heating, two active fans within the band, and a cold enclosure with no heater, where three
  advisories are returned.
\<close>

theorem between_one_and_three_advisories_witness:
  "fires ''optimize_energy'' (generateRecommendations 35 65 18 11 0 [])
   \<and> (35 :: real) > tempMax (targets_for 18)
   \<and> fires ''optimize_fans''
        (generateRecommendations 28 65 18 0 204 [fan_of 120 100, fan_of 120 100])
   \<and> tempMin (targets_for 18) \<le> (28 :: real) \<and> (28 :: real) \<le> tempMax (targets_for 18)
   \<and> fires ''activate_heating'' (generateRecommendations 20 40 18 0 0 [])
   \<and> (20 :: real) < tempMin (targets_for 18) - 2
   \<and> length (generateRecommendations 20 40 18 0 0 []) = 3"
  using between_one_and_three_advisories [where x = 35 and h = 65 and age = 18 and th = 11
      and tc = 0 and eqs = "[]"]
    between_one_and_three_advisories [where x = 28 and h = 65 and age = 18 and th = 0
      and tc = 204 and eqs = "[fan_of 120 100, fan_of 120 100]"]
    between_one_and_three_advisories [where x = 20 and h = 40 and age = 18 and th = 0
      and tc = 0 and eqs = "[]"]
  by (simp add: rule_defs fires_def activeFans_def activeHeaters_def fan_of_def truthy_def
      Let_def)

end
